theory Spec2Isabelle
  imports Main "HOL-Library.List_Lexorder" "HOL-Library.Sublist"
begin

section \<open>Python strings\<close>

text \<open>
  A Python \<^verbatim>\<open>str\<close> is a sequence of Unicode code points; \<^verbatim>\<open>len\<close> counts code
  points and comparison is lexicographic by code point. A character is therefore
  modelled by its code point, a natural number, and a string by a list of them.
  \<open>lit\<close> embeds an ASCII literal of the source.
\<close>

type_synonym pychar = nat
type_synonym pystr = "pychar list"

definition lit :: "string \<Rightarrow> pystr" where
  "lit s = map of_char s"

definition space :: pychar where
  "space = 32"

definition dquote :: pychar where
  "dquote = 34"

definition squote :: pychar where
  "squote = 39"

definition newline :: pychar where
  "newline = 10"

text \<open>
  \<^verbatim>\<open>str.isspace\<close> on one character: the code points that \<^verbatim>\<open>str.strip()\<close> and
  \<^verbatim>\<open>str.split()\<close> (both without argument) treat as whitespace.
\<close>

definition isspace :: "pychar \<Rightarrow> bool" where
  "isspace c =
     ((9 \<le> c \<and> c \<le> 13) \<or> (28 \<le> c \<and> c \<le> 32) \<or> c = 133 \<or> c = 160 \<or> c = 5760 \<or>
      (8192 \<le> c \<and> c \<le> 8202) \<or> c = 8232 \<or> c = 8233 \<or> c = 8239 \<or> c = 8287 \<or> c = 12288)"

definition strip :: "pystr \<Rightarrow> pystr" where
  "strip s = rev (dropWhile isspace (rev (dropWhile isspace s)))"

definition startswith :: "pystr \<Rightarrow> pystr \<Rightarrow> bool" where
  "startswith s p = (take (length p) s = p)"

text \<open>
  \<^verbatim>\<open>str.lower()\<close>, modelled on the ASCII letters. Python also lowers letters outside
  ASCII, but the program only compares the lowered command with the ASCII words
  \<^verbatim>\<open>quit exit q help tools\<close>, and the only code points outside ASCII whose lowering
  contains an ASCII letter are U+0130 (which lowers to \<^verbatim>\<open>i\<close> followed by U+0307) and
  U+212A (which lowers to \<^verbatim>\<open>k\<close>), so those comparisons come out the same.
\<close>

definition lower :: "pystr \<Rightarrow> pystr" where
  "lower s = map (\<lambda>c. if 65 \<le> c \<and> c \<le> 90 then c + 32 else c) s"

text \<open>\<^verbatim>\<open>str.split()\<close> without argument: the maximal runs of non-whitespace.\<close>

fun split_runs :: "pystr \<Rightarrow> pystr \<Rightarrow> pystr list" where
  "split_runs [] cur = (if cur = [] then [] else [cur])"
| "split_runs (c # cs) cur =
     (if isspace c then (if cur = [] then split_runs cs [] else cur # split_runs cs [])
      else split_runs cs (cur @ [c]))"

definition split :: "pystr \<Rightarrow> pystr list" where
  "split s = split_runs s []"

text \<open>\<^verbatim>\<open>sep.join(xs)\<close>.\<close>

fun join :: "pystr \<Rightarrow> pystr list \<Rightarrow> pystr" where
  "join sep [] = []"
| "join sep [x] = x"
| "join sep (x # y # ys) = x @ sep @ join sep (y # ys)"

text \<open>\<^verbatim>\<open>s.split(sep)\<close> for a separator of one character; empty pieces are kept.\<close>

fun split_sep :: "pychar \<Rightarrow> pystr \<Rightarrow> pystr list" where
  "split_sep sep [] = [[]]"
| "split_sep sep (c # cs) =
     (if c = sep then [] # split_sep sep cs
      else (case split_sep sep cs of [] \<Rightarrow> [[c]] | t # ts \<Rightarrow> (c # t) # ts))"

section \<open>Exceptions\<close>

text \<open>
  A value of \<open>exn\<close> is what a request of the client's session raises when it
  fails: an instance of Python's \<^verbatim>\<open>Exception\<close> class, with the text \<^verbatim>\<open>str(e)\<close> gives
  for it. A computation that may raise returns \<open>exn + 'a\<close>, with \<open>Inl\<close> for the
  raise. \<open>try_except\<close> is \<^verbatim>\<open>try: body  except Exception as e: handler\<close> on these.
  What may be raised inside the handlers of the server has a type of its own,
  \<open>raised\<close>, below.
\<close>

datatype exn = Exception pystr

fun message :: "exn \<Rightarrow> pystr" where
  "message (Exception m) = m"

definition try_except :: "exn + 'a \<Rightarrow> (exn \<Rightarrow> exn + 'a) \<Rightarrow> exn + 'a" where
  "try_except body handler = (case body of Inl e \<Rightarrow> handler e | Inr v \<Rightarrow> Inr v)"

section \<open>The client (mcp\_client.py)\<close>

subsection \<open>The session and the client object\<close>

text \<open>
  The \<^verbatim>\<open>ClientSession\<close> is a library object. What the client uses of it is the outcome
  of \<^verbatim>\<open>session.list_tools()\<close> and of \<^verbatim>\<open>session.call_tool(name, arguments)\<close>:
  each returns its result or raises (a transport or protocol failure).
\<close>

record tool =
  name :: pystr
  description :: pystr

datatype content_item = TextContent pystr | ImageContent | EmbeddedResource

text \<open>
  The result of \<^verbatim>\<open>session.call_tool\<close>: \<open>result_content\<close> is its \<^verbatim>\<open>content\<close> attribute
  (the name \<open>content\<close> is kept for the parameter of \<^verbatim>\<open>write_file\<close>).
\<close>

record CallToolResult =
  result_content :: "content_item list"
  isError :: bool

type_synonym arguments = "(pystr \<times> pystr) list"

record session =
  session_list_tools :: "exn + tool list"
  session_call_tool :: "pystr \<Rightarrow> arguments \<Rightarrow> exn + CallToolResult"

record SimpleMCPClient =
  tools :: "tool list"

text \<open>What the client writes to standard output, and the tool calls it issues.\<close>

datatype event = Print pystr | Call pystr arguments

subsection \<open>list\_tools\<close>

text \<open>
  The bullet of the source file is the three characters U+00E2 U+20AC U+00A2.
  An exception of \<^verbatim>\<open>session.list_tools()\<close> is caught and logged; the cache and the
  output are then as they were.
\<close>

definition bullet :: pystr where
  "bullet = [226, 8364, 162]"

definition list_tools :: "session \<Rightarrow> SimpleMCPClient \<Rightarrow> SimpleMCPClient \<times> event list" where
  "list_tools s self =
     (case session_list_tools s of
        Inl e \<Rightarrow> (self, [])
      | Inr result_tools \<Rightarrow>
          (self\<lparr>tools := result_tools\<rparr>,
           [Print (newline # lit ''=== Available Tools ==='')] @
           map (\<lambda>t. Print (bullet @ lit '' '' @ name t @ lit '': '' @ description t)) result_tools @
           [Print []]))"

subsection \<open>call\_tool\<close>

text \<open>The first content item that has a \<^verbatim>\<open>text\<close> attribute: only a \<open>TextContent\<close> has one.\<close>

fun first_text :: "content_item list \<Rightarrow> pystr option" where
  "first_text [] = None"
| "first_text (TextContent t # cs) = Some t"
| "first_text (ImageContent # cs) = first_text cs"
| "first_text (EmbeddedResource # cs) = first_text cs"

definition call_tool_try :: "session \<Rightarrow> pystr \<Rightarrow> arguments \<Rightarrow> exn + pystr" where
  "call_tool_try s tool_name args =
     (case session_call_tool s tool_name args of
        Inl e \<Rightarrow> Inl e
      | Inr result \<Rightarrow>
          (case first_text (result_content result) of
             Some t \<Rightarrow> Inr t
           | None \<Rightarrow> Inr (lit ''No content returned'')))"

definition call_tool :: "session \<Rightarrow> pystr \<Rightarrow> arguments \<Rightarrow> exn + pystr" where
  "call_tool s tool_name args =
     try_except (call_tool_try s tool_name args) (\<lambda>e. Inr (lit ''Error: '' @ message e))"

subsection \<open>parse\_command\_args\<close>

text \<open>
  The \<^verbatim>\<open>while i < len(command_line)\<close> loop reads the characters in order; the
  recursion is on the characters still to read, with the loop's four variables.
\<close>

fun parse_loop ::
  "pystr \<Rightarrow> pystr list \<Rightarrow> pystr \<Rightarrow> bool \<Rightarrow> pychar option \<Rightarrow> pystr list \<times> pystr" where
  "parse_loop [] args current_arg in_quotes quote_char = (args, current_arg)"
| "parse_loop (char # rest) args current_arg in_quotes quote_char =
     (if \<not> in_quotes then
        (if char = dquote \<or> char = squote then parse_loop rest args current_arg True (Some char)
         else if char = space then
           (if current_arg \<noteq> [] then parse_loop rest (args @ [current_arg]) [] in_quotes quote_char
            else parse_loop rest args current_arg in_quotes quote_char)
         else parse_loop rest args (current_arg @ [char]) in_quotes quote_char)
      else
        (if Some char = quote_char then parse_loop rest args current_arg False None
         else parse_loop rest args (current_arg @ [char]) in_quotes quote_char))"

definition parse_command_args :: "pystr \<Rightarrow> pystr list" where
  "parse_command_args command_line =
     (case parse_loop command_line [] [] False None of
        (args, current_arg) \<Rightarrow> if current_arg \<noteq> [] then args @ [current_arg] else args)"

text \<open>
  The reference the parser is compared with: split on the space character and drop
  the empty pieces, \<^verbatim>\<open>[t for t in s.split(' ') if t]\<close>.
\<close>

definition space_tokens :: "pystr \<Rightarrow> pystr list" where
  "space_tokens s = filter (\<lambda>t. t \<noteq> []) (split_sep space s)"

subsection \<open>One iteration of the interactive loop\<close>

definition show_help :: "event list" where
  "show_help =
     [Print (newline # lit ''=== Available Commands ===''),
      Print (lit ''help              - Show this help message''),
      Print (lit ''tools             - List available tools''),
      Print (lit ''calc <expr>       - Calculate mathematical expression''),
      Print (lit ''ls [directory]    - List files in directory''),
      Print (lit ''read <filepath>   - Read file contents''),
      Print (lit ''write <file> <content> - Write content to file (use quotes for content with spaces)''),
      Print (lit ''                        - Example: write hello.txt '' @ [dquote] @
             lit ''Hello, World!'' @ [dquote]),
      Print (lit ''quit              - Exit the client''),
      Print []]"

text \<open>
  \<^verbatim>\<open>result = await self.call_tool(session, name, arguments); print(...)\<close> inside the
  loop's \<^verbatim>\<open>try\<close>: the call is issued, and its result is printed by \<open>fmt\<close>; an exception
  out of the call would be printed by the loop's \<^verbatim>\<open>except Exception\<close> clause.
\<close>

definition call_and_print ::
  "session \<Rightarrow> pystr \<Rightarrow> arguments \<Rightarrow> (pystr \<Rightarrow> pystr) \<Rightarrow> event list" where
  "call_and_print s tool_name args fmt =
     [Call tool_name args,
      (case call_tool s tool_name args of
         Inr result \<Rightarrow> Print (fmt result)
       | Inl e \<Rightarrow> Print (lit ''Error: '' @ message e))]"

text \<open>
  The body of \<^verbatim>\<open>while True\<close> in \<^verbatim>\<open>interactive_session\<close> on the line \<^verbatim>\<open>input\<close>
  returned: the client object after it, the events, and whether the loop goes on
  (\<open>False\<close> is \<^verbatim>\<open>break\<close>).
\<close>

definition interactive_command ::
  "session \<Rightarrow> SimpleMCPClient \<Rightarrow> pystr \<Rightarrow> SimpleMCPClient \<times> event list \<times> bool" where
  "interactive_command s self line =
     (let command = strip line in
      if lower command \<in> set [lit ''quit'', lit ''exit'', lit ''q''] then (self, [], False)
      else if lower command = lit ''help'' then (self, show_help, True)
      else if lower command = lit ''tools'' then
        (case list_tools s self of (self', out) \<Rightarrow> (self', out, True))
      else if startswith command (lit ''calc '') then
        (let expression = strip (drop 5 command) in
         if expression \<noteq> [] then
           (self,
            call_and_print s (lit ''calculate'') [(lit ''expression'', expression)]
              (\<lambda>result. lit ''Result: '' @ result),
            True)
         else (self, [Print (lit ''Usage: calc <expression>'')], True))
      else if startswith command (lit ''ls'') then
        (let parts = split command;
             directory = (if length parts > 1 then parts ! 1 else lit ''.'') in
         (self, call_and_print s (lit ''list_files'') [(lit ''directory'', directory)] (\<lambda>result. result),
          True))
      else if startswith command (lit ''read '') then
        (let filepath = strip (drop 5 command) in
         if filepath \<noteq> [] then
           (self, call_and_print s (lit ''read_file'') [(lit ''filepath'', filepath)] (\<lambda>result. result),
            True)
         else (self, [Print (lit ''Usage: read <filepath>'')], True))
      else if startswith command (lit ''write '') then
        (let args = parse_command_args (strip (drop 6 command)) in
         if length args \<ge> 2 then
           (let filepath = hd args;
                content = join (lit '' '') (tl args) in
            (self,
             call_and_print s (lit ''write_file'')
               [(lit ''filepath'', filepath), (lit ''content'', content)] (\<lambda>result. result),
             True))
         else
           (self,
            [Print (lit ''Usage: write <filepath> <content>''),
             Print (lit ''       write <filepath> '' @ [dquote] @ lit ''<content with spaces>'' @ [dquote])],
            True))
      else if command = [] then (self, [], True)
      else
        (self,
         [Print (lit ''Unknown command: '' @ command),
          Print (lit ''Type '' @ [squote] @ lit ''help'' @ [squote] @ lit '' for available commands'')],
         True))"

section \<open>The server (mcp\_server.py)\<close>

subsection \<open>What a handler may raise\<close>

text \<open>
  Inside a handler of the server anything may be raised: \<^verbatim>\<open>eval\<close> runs the code of
  an arbitrary expression, and a signal may arrive during a system call. A value
  of \<open>raised\<close> is an exception object: \<open>is_Exception\<close> tells whether it is an instance
  of the class \<^verbatim>\<open>Exception\<close> (\<^verbatim>\<open>SystemExit\<close>, \<^verbatim>\<open>KeyboardInterrupt\<close> and
  \<^verbatim>\<open>GeneratorExit\<close> are not), and \<open>str_outcome\<close> is what \<^verbatim>\<open>str(e)\<close> does with it: it
  returns a text, or it raises in its turn (the \<^verbatim>\<open>__str__\<close> of a class is code of
  that class). A computation that may raise returns \<open>raised + 'a\<close>, with \<open>Inl\<close> for
  the raise.

  \<open>except_Exception\<close> is \<^verbatim>\<open>try: body  except Exception as e: handler\<close>: an exception
  outside the class is not caught. \<open>format_error label\<close> is the handler
  \<^verbatim>\<open>return f"label{str(e)}"\<close> of the four tools: what \<^verbatim>\<open>str(e)\<close> raises there leaves
  the function. Library calls that never return are not modelled.
\<close>

datatype raised = Raised (is_Exception: bool) (str_outcome: "raised + pystr")

definition except_Exception :: "raised + 'a \<Rightarrow> (raised \<Rightarrow> raised + 'a) \<Rightarrow> raised + 'a" where
  "except_Exception body handler =
     (case body of
        Inl e \<Rightarrow> if is_Exception e then handler e else Inl e
      | Inr v \<Rightarrow> Inr v)"

definition format_error :: "pystr \<Rightarrow> raised \<Rightarrow> raised + pystr" where
  "format_error label e =
     (case str_outcome e of
        Inl e' \<Rightarrow> Inl e'
      | Inr m \<Rightarrow> Inr (label @ m))"

subsection \<open>Formatting\<close>

text \<open>\<^verbatim>\<open>str(n)\<close> for a natural number \<open>n\<close>: its decimal digits.\<close>

function str_nat :: "nat \<Rightarrow> pystr" where
  "str_nat n = (if n < 10 then [48 + n] else str_nat (n div 10) @ [48 + n mod 10])"
  by pat_completeness auto
termination
  by (relation "measure (\<lambda>n. n)") auto

declare str_nat.simps [simp del]

text \<open>The two markers of \<^verbatim>\<open>list_files\<close>: U+1F4C4 (page) and U+1F4C1 (folder).\<close>

definition file_marker :: pystr where
  "file_marker = [128196]"

definition folder_marker :: pystr where
  "folder_marker = [128193]"

subsection \<open>calculate\<close>

text \<open>
  \<^verbatim>\<open>calculate\<close> hands its argument to Python's built-in \<^verbatim>\<open>eval\<close>. The interpreter is
  a parameter of the model: \<open>py_eval\<close> is \<^verbatim>\<open>eval(expression, globals, locals)\<close>,
  \<open>py_str\<close> is \<^verbatim>\<open>str\<close> on the value (the f-string applies it), \<open>math_dict\<close> is
  \<^verbatim>\<open>math.__dict__.items()\<close>, \<open>builtin\<close> gives the built-in function of a name and
  \<open>empty_dict\<close> is \<^verbatim>\<open>{}\<close>. Both \<open>py_eval\<close> and \<open>py_str\<close> may raise any exception
  object.
\<close>

record 'v python =
  py_eval :: "pystr \<Rightarrow> (pystr \<rightharpoonup> 'v) \<Rightarrow> (pystr \<rightharpoonup> 'v) \<Rightarrow> raised + 'v"
  py_str :: "'v \<Rightarrow> raised + pystr"
  math_dict :: "(pystr \<times> 'v) list"
  builtin :: "pystr \<Rightarrow> 'v"
  empty_dict :: "'v"

definition allowed_names :: "'v python \<Rightarrow> (pystr \<rightharpoonup> 'v)" where
  "allowed_names py =
     map_of (filter (\<lambda>(k, v). \<not> startswith k (lit ''__'')) (math_dict py)) ++
     map_of [(lit ''abs'', builtin py (lit ''abs'')),
             (lit ''round'', builtin py (lit ''round'')),
             (lit ''min'', builtin py (lit ''min'')),
             (lit ''max'', builtin py (lit ''max'')),
             (lit ''sum'', builtin py (lit ''sum'')),
             (lit ''pow'', builtin py (lit ''pow''))]"

definition calculate_try :: "'v python \<Rightarrow> pystr \<Rightarrow> raised + pystr" where
  "calculate_try py expression =
     (case py_eval py expression [lit ''__builtins__'' \<mapsto> empty_dict py] (allowed_names py) of
        Inl e \<Rightarrow> Inl e
      | Inr result \<Rightarrow>
          (case py_str py result of
             Inl e \<Rightarrow> Inl e
           | Inr r \<Rightarrow> Inr (lit ''Result: '' @ expression @ lit '' = '' @ r)))"

definition calculate :: "'v python \<Rightarrow> pystr \<Rightarrow> raised + pystr" where
  "calculate py expression =
     except_Exception (calculate_try py expression) (format_error (lit ''Calculation error: ''))"

subsection \<open>The operating system\<close>

text \<open>
  The file tools call the \<^verbatim>\<open>os\<close> module and \<^verbatim>\<open>open\<close>. The operating system is a
  parameter of the model, over any type \<open>'fs\<close> of file system states:
  \<open>path_exists\<close>, \<open>path_isfile\<close>, \<open>path_isdir\<close>, \<open>path_join\<close>, \<open>path_dirname\<close> are
  the functions of \<^verbatim>\<open>os.path\<close>; \<open>listdir\<close> is \<^verbatim>\<open>os.listdir\<close>; \<open>makedirs\<close> is
  \<^verbatim>\<open>os.makedirs(d, exist_ok=True)\<close>; \<open>read_text\<close> is opening a file for reading as
  UTF-8 and reading all of it; \<open>write_text\<close> is opening a file for writing as UTF-8
  (creating or truncating it), writing the content and closing it. The last two,
  \<open>listdir\<close> and \<open>makedirs\<close> may raise; \<open>makedirs\<close> and \<open>write_text\<close> change the file
  system, also when they raise.
\<close>

record 'fs os =
  path_exists :: "'fs \<Rightarrow> pystr \<Rightarrow> bool"
  path_isfile :: "'fs \<Rightarrow> pystr \<Rightarrow> bool"
  path_isdir :: "'fs \<Rightarrow> pystr \<Rightarrow> bool"
  path_join :: "pystr \<Rightarrow> pystr \<Rightarrow> pystr"
  path_dirname :: "pystr \<Rightarrow> pystr"
  listdir :: "'fs \<Rightarrow> pystr \<Rightarrow> raised + pystr list"
  makedirs :: "'fs \<Rightarrow> pystr \<Rightarrow> (raised + unit) \<times> 'fs"
  read_text :: "'fs \<Rightarrow> pystr \<Rightarrow> raised + pystr"
  write_text :: "'fs \<Rightarrow> pystr \<Rightarrow> pystr \<Rightarrow> (raised + unit) \<times> 'fs"

subsection \<open>list\_files\<close>

fun list_files_loop :: "'fs os \<Rightarrow> 'fs \<Rightarrow> pystr \<Rightarrow> pystr list \<Rightarrow> pystr list \<Rightarrow> pystr list" where
  "list_files_loop os fs directory [] files = files"
| "list_files_loop os fs directory (item # items) files =
     (let item_path = path_join os directory item in
      if path_isfile os fs item_path then
        list_files_loop os fs directory items (files @ [file_marker @ lit '' '' @ item])
      else if path_isdir os fs item_path then
        list_files_loop os fs directory items (files @ [folder_marker @ lit '' '' @ item @ lit ''/''])
      else list_files_loop os fs directory items files)"

definition list_files_try :: "'fs os \<Rightarrow> 'fs \<Rightarrow> pystr \<Rightarrow> raised + pystr" where
  "list_files_try os fs directory =
     (if \<not> path_exists os fs directory then
        Inr (lit ''Directory does not exist: '' @ directory)
      else
        (case listdir os fs directory of
           Inl e \<Rightarrow> Inl e
         | Inr items \<Rightarrow>
             (let files = list_files_loop os fs directory items [];
                  files_list = join [newline] (sort files) in
              Inr (lit ''Files in '' @ directory @ lit '':'' @ [newline] @ files_list))))"

definition list_files :: "'fs os \<Rightarrow> 'fs \<Rightarrow> pystr \<Rightarrow> raised + pystr" where
  "list_files os fs directory =
     except_Exception (list_files_try os fs directory) (format_error (lit ''Error listing files: ''))"

subsection \<open>read\_file\<close>

definition read_file_try :: "'fs os \<Rightarrow> 'fs \<Rightarrow> pystr \<Rightarrow> raised + pystr" where
  "read_file_try os fs filepath =
     (if \<not> path_exists os fs filepath then Inr (lit ''File does not exist: '' @ filepath)
      else
        (case read_text os fs filepath of
           Inl e \<Rightarrow> Inl e
         | Inr content \<Rightarrow>
             Inr (lit ''Contents of '' @ filepath @ lit '':'' @ [newline, newline] @ content)))"

definition read_file :: "'fs os \<Rightarrow> 'fs \<Rightarrow> pystr \<Rightarrow> raised + pystr" where
  "read_file os fs filepath =
     except_Exception (read_file_try os fs filepath) (format_error (lit ''Error reading file: ''))"

subsection \<open>write\_file\<close>

text \<open>
  The handler changes the file system, so it returns the state after it beside
  its result.
\<close>

definition write_file_try :: "'fs os \<Rightarrow> 'fs \<Rightarrow> pystr \<Rightarrow> pystr \<Rightarrow> (raised + pystr) \<times> 'fs" where
  "write_file_try os fs filepath content =
     (let directory = path_dirname os filepath in
      case (if directory \<noteq> [] then makedirs os fs directory else (Inr (), fs)) of
        (Inl e, fs1) \<Rightarrow> (Inl e, fs1)
      | (Inr u, fs1) \<Rightarrow>
          (case write_text os fs1 filepath content of
             (Inl e, fs2) \<Rightarrow> (Inl e, fs2)
           | (Inr u, fs2) \<Rightarrow>
               (Inr (lit ''Successfully wrote '' @ str_nat (length content) @
                     lit '' characters to '' @ filepath),
                fs2)))"

definition write_file :: "'fs os \<Rightarrow> 'fs \<Rightarrow> pystr \<Rightarrow> pystr \<Rightarrow> (raised + pystr) \<times> 'fs" where
  "write_file os fs filepath content =
     (case write_file_try os fs filepath content of
        (r, fs') \<Rightarrow> (except_Exception r (format_error (lit ''Error writing file: '')), fs'))"

section \<open>posixpath\<close>

text \<open>
  On a POSIX system \<^verbatim>\<open>os.path\<close> is the module \<^verbatim>\<open>posixpath\<close>. Its functions \<^verbatim>\<open>split\<close>,
  \<^verbatim>\<open>dirname\<close> and \<^verbatim>\<open>join\<close> (of two strings) work on the text of a path alone.
\<close>

definition slash :: pychar where
  "slash = 47"

definition rstrip_slash :: "pystr \<Rightarrow> pystr" where
  "rstrip_slash s = rev (dropWhile (\<lambda>c. c = slash) (rev s))"

text \<open>
  \<^verbatim>\<open>posixpath.split\<close>: the tail is what follows the last slash; the head is what
  precedes it, with its trailing slashes removed unless it consists of slashes.
\<close>

definition posix_split :: "pystr \<Rightarrow> pystr \<times> pystr" where
  "posix_split p =
     (let tail = rev (takeWhile (\<lambda>c. c \<noteq> slash) (rev p));
          head = take (length p - length tail) p in
      (if head \<noteq> [] \<and> head \<noteq> replicate (length head) slash then rstrip_slash head else head,
       tail))"

definition posix_dirname :: "pystr \<Rightarrow> pystr" where
  "posix_dirname p = fst (posix_split p)"

definition posix_join :: "pystr \<Rightarrow> pystr \<Rightarrow> pystr" where
  "posix_join a b =
     (if startswith b [slash] then b
      else if a = [] \<or> last a = slash then a @ b
      else a @ [slash] @ b)"

section \<open>Examples\<close>


definition replying_session :: "pystr \<Rightarrow> bool \<Rightarrow> session" where
  "replying_session t err =
     \<lparr>session_list_tools =
        Inr [\<lparr>name = lit ''calculate'', description = lit ''Perform basic mathematical calculations''\<rparr>],
      session_call_tool = (\<lambda>n a. Inr \<lparr>result_content = [TextContent t], isError = err\<rparr>)\<rparr>"

text \<open>
  \<open>exception m\<close>: an instance of \<^verbatim>\<open>Exception\<close> whose \<^verbatim>\<open>str\<close> is \<open>m\<close>.
  \<open>system_exit\<close> and \<open>keyboard_interrupt\<close>: \<^verbatim>\<open>SystemExit()\<close> and \<^verbatim>\<open>KeyboardInterrupt()\<close>,
  outside the class \<^verbatim>\<open>Exception\<close>; their \<^verbatim>\<open>str\<close> is the empty string.
\<close>

definition exception :: "pystr \<Rightarrow> raised" where
  "exception m = Raised True (Inr m)"

definition system_exit :: raised where
  "system_exit = Raised False (Inr [])"

definition keyboard_interrupt :: raised where
  "keyboard_interrupt = Raised False (Inr [])"

text \<open>
  \<open>exit_expression\<close>: an expression that needs no name. It finds the class
  \<^verbatim>\<open>SystemExit\<close> among the subclasses of \<^verbatim>\<open>BaseException\<close>, itself among the subclasses
  of \<^verbatim>\<open>object\<close>, and throws it into a generator that has not started, which raises
  it:

  \<^verbatim>\<open>(_ for _ in ()).throw([c for c in [b for b in ().__class__.__base__.__subclasses__() if b.__name__ == 'BaseException'][0].__subclasses__() if c.__name__ == 'SystemExit'][0])\<close>
\<close>

definition exit_expression :: pystr where
  "exit_expression =
     lit ''(_ for _ in ()).throw([c for c in [b for b in ().__class__.__base__.__subclasses__() '' @
     lit ''if b.__name__ == '' @ [squote] @ lit ''BaseException'' @ [squote] @
     lit ''][0].__subclasses__() if c.__name__ == '' @ [squote] @ lit ''SystemExit'' @ [squote] @
     lit ''][0])''"

text \<open>
  \<open>example_python\<close>: an interpreter for the examples, with the values written as
  their \<^verbatim>\<open>str\<close>. On the four expressions it knows it answers as CPython does with
  these globals and locals; it raises on every other expression.
\<close>

definition example_python :: "pystr python" where
  "example_python =
     \<lparr>py_eval = (\<lambda>expression globals locals.
        if expression = lit ''2 + 3 * 4'' then Inr (lit ''14'')
        else if expression = lit ''[1, 2] * 2'' then Inr (lit ''[1, 2, 1, 2]'')
        else if expression = lit ''1/0'' then Inl (exception (lit ''division by zero''))
        else if expression = exit_expression then Inl system_exit
        else Inl (exception (lit ''invalid syntax (<string>, line 1)''))),
      py_str = (\<lambda>v. Inr v),
      math_dict = [(lit ''__name__'', lit ''math''), (lit ''pi'', lit ''3.141592653589793'')],
      builtin = (\<lambda>n. lit ''<built-in function '' @ n @ lit ''>''),
      empty_dict = lit ''{}''\<rparr>"

text \<open>
  \<open>example_os\<close>: the answers of a Linux system to the calls the examples make, for
  a process whose current directory holds the regular files \<^verbatim>\<open>notes.txt\<close> (with the
  content \<^verbatim>\<open>hello\<close>) and \<^verbatim>\<open>Makefile\<close>, the directories \<^verbatim>\<open>docs\<close> and \<^verbatim>\<open>private\<close>, the
  latter without any permission for the process, and the socket \<^verbatim>\<open>agent.sock\<close>, and
  nothing else. A state is the list of the changes made so far; the answers are
  those of the starting state \<open>[]\<close>, and every example starts there and asks
  nothing after a change. The messages are those of \<^verbatim>\<open>str\<close> on the \<^verbatim>\<open>OSError\<close> raised.
  \<open>interrupted_os\<close>: the same, with a keyboard interrupt arriving as a file is
  opened.
\<close>

datatype effect = MadeDirs pystr | Wrote pystr pystr

definition example_os :: "effect list os" where
  "example_os =
     \<lparr>path_exists = (\<lambda>fs p. p \<in> set
        [lit ''.'', lit ''notes.txt'', lit ''Makefile'', lit ''docs'', lit ''private'',
         lit ''agent.sock'', lit ''./notes.txt'', lit ''./Makefile'', lit ''./docs'',
         lit ''./private'', lit ''./agent.sock'', lit ''docs/'']),
      path_isfile = (\<lambda>fs p. p \<in> set
        [lit ''notes.txt'', lit ''Makefile'', lit ''./notes.txt'', lit ''./Makefile'']),
      path_isdir = (\<lambda>fs p. p \<in> set
        [lit ''.'', lit ''docs'', lit ''private'', lit ''./docs'', lit ''./private'', lit ''docs/'']),
      path_join = posix_join,
      path_dirname = posix_dirname,
      listdir = (\<lambda>fs p.
        if p = lit ''.'' then
          Inr [lit ''notes.txt'', lit ''private'', lit ''docs'', lit ''agent.sock'', lit ''Makefile'']
        else if p = lit ''docs'' then Inr []
        else if p = lit ''private'' then
          Inl (exception (lit ''[Errno 13] Permission denied: '' @ [squote] @ p @ [squote]))
        else if p = lit ''notes.txt'' then
          Inl (exception (lit ''[Errno 20] Not a directory: '' @ [squote] @ p @ [squote]))
        else Inl (exception (lit ''[Errno 2] No such file or directory: '' @ [squote] @ p @ [squote]))),
      makedirs = (\<lambda>fs d.
        if d = lit ''notes.txt/sub'' then
          (Inl (exception (lit ''[Errno 20] Not a directory: '' @ [squote] @ d @ [squote])), fs)
        else if d = lit ''docs'' then (Inr (), fs)
        else (Inr (), fs @ [MadeDirs d])),
      read_text = (\<lambda>fs p.
        if p = lit ''notes.txt'' then Inr (lit ''hello'')
        else if p = lit ''docs'' then
          Inl (exception (lit ''[Errno 21] Is a directory: '' @ [squote] @ p @ [squote]))
        else Inl (exception (lit ''[Errno 2] No such file or directory: '' @ [squote] @ p @ [squote]))),
      write_text = (\<lambda>fs p c.
        if p = lit ''docs'' \<or> p = lit ''docs/'' then
          (Inl (exception (lit ''[Errno 21] Is a directory: '' @ [squote] @ p @ [squote])), fs)
        else (Inr (), fs @ [Wrote p c]))\<rparr>"

definition interrupted_os :: "effect list os" where
  "interrupted_os =
     example_os
       \<lparr>read_text := (\<lambda>fs p. Inl keyboard_interrupt),
        write_text := (\<lambda>fs p c. (Inl keyboard_interrupt, fs))\<rparr>"

section \<open>Properties of the client\<close>

subsection \<open>parse\_command\_args\<close>

lemma split_sep_not_Nil: "split_sep sep s \<noteq> []"
  by (induction s) (auto split: list.splits)

lemma parse_loop_no_quotes:
  "dquote \<notin> set s \<Longrightarrow> squote \<notin> set s \<Longrightarrow>
   (case parse_loop s args cur False None of (a, c) \<Rightarrow> if c \<noteq> [] then a @ [c] else a) =
   args @ filter (\<lambda>t. t \<noteq> []) (case split_sep space s of [] \<Rightarrow> [cur] | t # ts \<Rightarrow> (cur @ t) # ts)"
proof (induction s arbitrary: args cur)
  case Nil
  then show ?case by simp
next
  case (Cons c s)
  obtain t ts where ts: "split_sep space s = t # ts"
    using split_sep_not_Nil[of space s] by (cases "split_sep space s") auto
  from Cons.prems have nq: "dquote \<notin> set s" "squote \<notin> set s" "c \<noteq> dquote" "c \<noteq> squote"
    by auto
  show ?case
  proof (cases "c = space")
    case True
    then show ?thesis
      using nq Cons.IH[OF nq(1,2)] ts by (simp add: space_def dquote_def squote_def)
  next
    case False
    then show ?thesis
      using nq Cons.IH[OF nq(1,2), of args "cur @ [c]"] ts by simp
  qed
qed

lemma parse_loop_args_nonempty:
  "[] \<notin> set args \<Longrightarrow> [] \<notin> set (fst (parse_loop s args cur q qc))"
  by (induction s args cur q qc rule: parse_loop.induct) auto

text \<open>
  C8. On a command line without a single or double quote, \<open>parse_command_args\<close>
  returns what splitting on spaces and dropping the empty pieces returns; and on
  every command line, no argument it returns is the empty string.
\<close>

theorem parse_command_args_space_tokens:
  "(dquote \<notin> set command_line \<and> squote \<notin> set command_line \<longrightarrow>
      parse_command_args command_line = space_tokens command_line) \<and>
   [] \<notin> set (parse_command_args command_line)"
proof
  show "dquote \<notin> set command_line \<and> squote \<notin> set command_line \<longrightarrow>
      parse_command_args command_line = space_tokens command_line"
  proof
    assume nq: "dquote \<notin> set command_line \<and> squote \<notin> set command_line"
    obtain t ts where ts: "split_sep space command_line = t # ts"
      using split_sep_not_Nil[of space command_line]
      by (cases "split_sep space command_line") auto
    show "parse_command_args command_line = space_tokens command_line"
      using nq parse_loop_no_quotes[of command_line "[]" "[]"] ts
      by (simp add: parse_command_args_def space_tokens_def)
  qed
next
  obtain a c where ac: "parse_loop command_line [] [] False None = (a, c)"
    by (cases "parse_loop command_line [] [] False None")
  have "[] \<notin> set a"
    using parse_loop_args_nonempty[of "[]" command_line "[]" False None] ac by simp
  then show "[] \<notin> set (parse_command_args command_line)"
    using ac by (simp add: parse_command_args_def)
qed

theorem parse_command_args_space_tokens_witness:
  "dquote \<notin> set (lit ''a.txt  hi there '') \<and> squote \<notin> set (lit ''a.txt  hi there '') \<and>
   parse_command_args (lit ''a.txt  hi there '') = [lit ''a.txt'', lit ''hi'', lit ''there''] \<and>
   space_tokens (lit ''a.txt  hi there '') = [lit ''a.txt'', lit ''hi'', lit ''there''] \<and>
   [] \<notin> set (parse_command_args (lit ''a.txt  hi there ''))"
proof -
  have nq: "dquote \<notin> set (lit ''a.txt  hi there '') \<and> squote \<notin> set (lit ''a.txt  hi there '')"
    by (simp add: lit_def dquote_def squote_def)
  have st: "space_tokens (lit ''a.txt  hi there '') = [lit ''a.txt'', lit ''hi'', lit ''there'']"
    by (simp add: lit_def space_tokens_def space_def)
  show ?thesis
    using nq st parse_command_args_space_tokens[of "lit ''a.txt  hi there ''"]
    by (simp add: lit_def)
qed

subsection \<open>list\_tools\<close>

text \<open>
  C4. After a \<open>list_tools\<close> call in which the session returned a tool list, the
  client's cache is exactly that list, whatever the cache held before.
\<close>

theorem list_tools_replaces_cache:
  "session_list_tools s = Inr ts \<Longrightarrow> tools (fst (list_tools s self)) = ts"
  by (simp add: list_tools_def)

theorem list_tools_replaces_cache_witness:
  "session_list_tools (replying_session [] False) =
     Inr [\<lparr>name = lit ''calculate'', description = lit ''Perform basic mathematical calculations''\<rparr>] \<and>
   tools (fst (list_tools (replying_session [] False)
     \<lparr>tools = [\<lparr>name = lit ''old'', description = []\<rparr>, \<lparr>name = lit ''older'', description = []\<rparr>]\<rparr>)) =
     [\<lparr>name = lit ''calculate'', description = lit ''Perform basic mathematical calculations''\<rparr>]"
proof -
  have h: "session_list_tools (replying_session [] False) =
     Inr [\<lparr>name = lit ''calculate'', description = lit ''Perform basic mathematical calculations''\<rparr>]"
    by (simp add: replying_session_def)
  show ?thesis
    using h list_tools_replaces_cache[OF h] by simp
qed

subsection \<open>call\_tool\<close>




lemma call_tool_total: "\<exists>result. call_tool s tool_name args = Inr result"
  by (simp add: call_tool_def call_tool_try_def try_except_def split: sum.splits option.splits)

lemma call_and_print_events:
  "\<exists>result. call_and_print s tool_name args fmt = [Call tool_name args, Print (fmt result)]"
  using call_tool_total[of s tool_name args] by (auto simp: call_and_print_def)

subsection \<open>The interactive commands\<close>

lemma startswithD: "startswith s p \<Longrightarrow> s = p @ drop (length p) s"
  by (metis append_take_drop_id startswith_def)

lemma strip_last_not_space: "strip s \<noteq> [] \<Longrightarrow> \<not> isspace (last (strip s))"
proof -
  assume ne: "strip s \<noteq> []"
  let ?r = "dropWhile isspace (rev (dropWhile isspace s))"
  from ne have r: "?r \<noteq> []" by (simp add: strip_def)
  then have "\<not> isspace (hd ?r)" by (rule hd_dropWhile)
  moreover have "last (strip s) = hd ?r" using r by (simp add: strip_def last_rev)
  ultimately show ?thesis by simp
qed

lemma strip_Nil_all_space: "strip s = [] \<Longrightarrow> \<forall>c \<in> set s. isspace c"
proof -
  assume "strip s = []"
  then have a: "\<forall>c \<in> set (dropWhile isspace s). isspace c"
    by (simp add: strip_def dropWhile_eq_Nil_conv)
  have "dropWhile isspace s = []"
  proof (rule ccontr)
    assume ne: "dropWhile isspace s \<noteq> []"
    then have "\<not> isspace (hd (dropWhile isspace s))" by (rule hd_dropWhile)
    moreover have "hd (dropWhile isspace s) \<in> set (dropWhile isspace s)" using ne by simp
    ultimately show False using a by blast
  qed
  then show ?thesis by (simp add: dropWhile_eq_Nil_conv)
qed

text \<open>
  A stripped command that starts with \<^verbatim>\<open>calc \<close> has a non-empty expression: the
  line was stripped before the test, so it cannot end in the space of the prefix
  or in whitespace after it.
\<close>

lemma calc_expression_not_empty:
  assumes "startswith (strip line) (lit ''calc '')"
  shows "strip (drop 5 (strip line)) \<noteq> []"
proof
  assume e: "strip (drop 5 (strip line)) = []"
  define rest where "rest = drop 5 (strip line)"
  have len: "length (lit ''calc '') = 5" by (simp add: lit_def)
  have c: "strip line = lit ''calc '' @ rest"
    using startswithD[OF assms] unfolding len rest_def .
  have sp: "\<forall>c \<in> set rest. isspace c"
    using e strip_Nil_all_space[of rest] by (simp add: rest_def)
  have ne: "strip line \<noteq> []" using c by (simp add: lit_def)
  have "isspace (last (strip line))"
  proof (cases "rest = []")
    case True
    then show ?thesis using c by (simp add: lit_def isspace_def)
  next
    case False
    then have "last (strip line) = last rest" using c by simp
    then show ?thesis using sp False by simp
  qed
  then show False using strip_last_not_space[OF ne] by simp
qed

text \<open>
  The part of C5 that holds: a line whose stripped form starts with \<^verbatim>\<open>calc \<close>
  issues one call of \<^verbatim>\<open>calculate\<close> with the stripped expression and prints its result.
\<close>

lemma calc_command_calls_calculate:
  assumes "startswith (strip line) (lit ''calc '')"
  shows "\<exists>result. interactive_command s self line =
     (self,
      [Call (lit ''calculate'') [(lit ''expression'', strip (drop 5 (strip line)))],
       Print (lit ''Result: '' @ result)],
      True)"
proof -
  define rest where "rest = drop 5 (strip line)"
  have len: "length (lit ''calc '') = 5" by (simp add: lit_def)
  have c: "strip line = lit ''calc '' @ rest"
    using startswithD[OF assms] unfolding len rest_def .
  have ne: "strip rest \<noteq> []"
    using calc_expression_not_empty[OF assms] by (simp add: rest_def)
  define fmt where "fmt = (\<lambda>result::pystr. lit ''Result: '' @ result)"
  have "interactive_command s self line =
     (self, call_and_print s (lit ''calculate'') [(lit ''expression'', strip rest)] fmt, True)"
    unfolding interactive_command_def Let_def rest_def[symmetric] fmt_def[symmetric]
    unfolding c
    using ne by (simp add: lit_def lower_def startswith_def)
  then show ?thesis
    using call_and_print_events[of s "lit ''calculate''" "[(lit ''expression'', strip rest)]" fmt]
    by (auto simp: rest_def fmt_def)
qed

text \<open>
  C5, where the code departs from it. The line \<^verbatim>\<open>calc \<close> (the command with an empty
  expression) is stripped to \<^verbatim>\<open>calc\<close> before the test for the prefix \<^verbatim>\<open>calc \<close>, so
  the loop prints the unknown-command message, not the usage message.
\<close>

theorem calc_without_expression_is_unknown_command:
  "interactive_command s self (lit ''calc '') =
     (self,
      [Print (lit ''Unknown command: calc''),
       Print (lit ''Type '' @ [squote] @ lit ''help'' @ [squote] @ lit '' for available commands'')],
      True)"
  by (simp add: interactive_command_def lit_def strip_def isspace_def lower_def startswith_def)



text \<open>
  The part of C7 that holds: a line whose stripped form starts with \<^verbatim>\<open>ls\<close> issues one
  call of \<^verbatim>\<open>list_files\<close>, its directory the second whitespace-separated token, or
  \<^verbatim>\<open>.\<close> when there is none.
\<close>

lemma ls_command_calls_list_files:
  assumes "startswith (strip line) (lit ''ls'')"
  shows "\<exists>result. interactive_command s self line =
     (self,
      [Call (lit ''list_files'')
         [(lit ''directory'',
           if length (split (strip line)) > 1 then split (strip line) ! 1 else lit ''.'')],
       Print result],
      True)"
proof -
  define rest where "rest = drop 2 (strip line)"
  define directory where
    "directory = (if length (split (strip line)) > 1 then split (strip line) ! 1 else lit ''.'')"
  have len: "length (lit ''ls'') = 2" by (simp add: lit_def)
  have c: "strip line = lit ''ls'' @ rest"
    using startswithD[OF assms] unfolding len rest_def .
  have "interactive_command s self line =
     (self, call_and_print s (lit ''list_files'') [(lit ''directory'', directory)]
        (\<lambda>result. result), True)"
    unfolding interactive_command_def Let_def directory_def[symmetric]
    unfolding c
    by (simp add: lit_def lower_def startswith_def)
  then show ?thesis
    unfolding directory_def[symmetric]
    using call_and_print_events[of s "lit ''list_files''" "[(lit ''directory'', directory)]" "\<lambda>result. result"]
    by auto
qed

text \<open>
  C7, where the code departs from it. The test is \<^verbatim>\<open>command.startswith('ls')\<close>, so a
  command that is not \<^verbatim>\<open>ls\<close> but only begins with these two letters, such as
  \<^verbatim>\<open>lsx foo\<close>, also issues a \<^verbatim>\<open>list_files\<close> call.
\<close>

theorem ls_prefix_command_calls_list_files:
  "\<exists>result. interactive_command s self (lit ''lsx foo'') =
     (self, [Call (lit ''list_files'') [(lit ''directory'', lit ''foo'')], Print result], True)"
proof -
  have "interactive_command s self (lit ''lsx foo'') =
     (self, call_and_print s (lit ''list_files'') [(lit ''directory'', lit ''foo'')]
        (\<lambda>result. result), True)"
    by (simp add: interactive_command_def lit_def strip_def isspace_def lower_def
        startswith_def split_def)
  then show ?thesis
    using call_and_print_events[of s "lit ''list_files''" "[(lit ''directory'', lit ''foo'')]"
        "\<lambda>result. result"]
    by auto
qed

section \<open>Properties of the server\<close>

subsection \<open>calculate\<close>

lemma calculate_cases:
  "calculate py expression =
     (case py_eval py expression [lit ''__builtins__'' \<mapsto> empty_dict py] (allowed_names py) of
        Inl e \<Rightarrow> if is_Exception e then format_error (lit ''Calculation error: '') e else Inl e
      | Inr result \<Rightarrow>
          (case py_str py result of
             Inl e \<Rightarrow> if is_Exception e then format_error (lit ''Calculation error: '') e else Inl e
           | Inr r \<Rightarrow> Inr (lit ''Result: '' @ expression @ lit '' = '' @ r)))"
  by (simp add: calculate_def calculate_try_def except_Exception_def split: sum.splits)

text \<open>
  C1, where the code departs from it. \<open>calculate\<close> makes no check of its own on the
  expression: whatever Python's \<^verbatim>\<open>eval\<close> evaluates, with the built-ins emptied and
  the names of \<^verbatim>\<open>math\<close> visible, is a success result. \<^verbatim>\<open>eval\<close> is Python's
  general evaluator of expressions, so a list display such as \<^verbatim>\<open>[1, 2] * 2\<close>, which
  is outside the grammar of numbers, \<^verbatim>\<open>+ - * / ^\<close>, parentheses and named functions,
  evaluates to a success result.
\<close>

theorem calculate_accepts_what_eval_accepts:
  assumes "py_eval py expression [lit ''__builtins__'' \<mapsto> empty_dict py] (allowed_names py) = Inr v"
    and "py_str py v = Inr r"
  shows "calculate py expression = Inr (lit ''Result: '' @ expression @ lit '' = '' @ r)"
  using assms by (simp add: calculate_def calculate_try_def except_Exception_def)

theorem calculate_accepts_what_eval_accepts_witness:
  "calculate example_python (lit ''[1, 2] * 2'') = Inr (lit ''Result: [1, 2] * 2 = [1, 2, 1, 2]'')"
proof -
  have e: "py_eval example_python (lit ''[1, 2] * 2'')
      [lit ''__builtins__'' \<mapsto> empty_dict example_python] (allowed_names example_python) =
      Inr (lit ''[1, 2, 1, 2]'')"
    by (simp add: example_python_def lit_def)
  have s: "py_str example_python (lit ''[1, 2, 1, 2]'') = Inr (lit ''[1, 2, 1, 2]'')"
    by (simp add: example_python_def)
  show ?thesis
    using calculate_accepts_what_eval_accepts[OF e s] by (simp add: lit_def)
qed

subsection \<open>What the handlers catch\<close>

text \<open>Where the body of each \<^verbatim>\<open>try\<close> raises: at each library call it makes, and only there.\<close>

lemma calculate_try_raises:
  "calculate_try py expression = Inl e \<longleftrightarrow>
     py_eval py expression [lit ''__builtins__'' \<mapsto> empty_dict py] (allowed_names py) = Inl e \<or>
     (\<exists>v. py_eval py expression [lit ''__builtins__'' \<mapsto> empty_dict py] (allowed_names py) = Inr v \<and>
          py_str py v = Inl e)"
  by (auto simp: calculate_try_def split: sum.splits)

lemma read_file_try_raises:
  "read_file_try os fs filepath = Inl e \<longleftrightarrow>
     path_exists os fs filepath \<and> read_text os fs filepath = Inl e"
  by (auto simp: read_file_try_def split: sum.splits)

lemma write_file_try_raises:
  "write_file_try os fs filepath content = (Inl e, fs') \<longleftrightarrow>
     (path_dirname os filepath \<noteq> [] \<and> makedirs os fs (path_dirname os filepath) = (Inl e, fs')) \<or>
     (\<exists>fs1. (if path_dirname os filepath \<noteq> [] then makedirs os fs (path_dirname os filepath)
             else (Inr (), fs)) = (Inr (), fs1) \<and>
        write_text os fs1 filepath content = (Inl e, fs'))"
  by (auto simp: write_file_try_def Let_def split: sum.splits prod.splits if_splits)

text \<open>
  An exception of the class \<^verbatim>\<open>Exception\<close> is caught, and then \<^verbatim>\<open>str(e)\<close> runs inside
  the \<^verbatim>\<open>except\<close> clause: what it raises leaves the handler.
\<close>

lemma except_Exception_str_raises:
  assumes "body = Inl e" and "is_Exception e" and "str_outcome e = Inl e'"
  shows "except_Exception body (format_error label) = Inl e'"
  using assms by (simp add: except_Exception_def format_error_def)

text \<open>
  C2, as the code has it. Each of \<open>calculate\<close>, \<open>read_file\<close> and \<open>write_file\<close> returns
  what the body of its \<^verbatim>\<open>try\<close> returns. When the body raises an instance of
  \<^verbatim>\<open>Exception\<close> of which \<^verbatim>\<open>str\<close> gives the message \<open>m\<close>, the handler returns its failure
  prefix followed by \<open>m\<close>. When the body raises an exception outside the class
  \<^verbatim>\<open>Exception\<close>, the handler does not catch it: it leaves the handler.
\<close>

theorem handlers_catch_Exception_instances:
  "(\<forall>r. calculate_try py expression = Inr r \<longrightarrow> calculate py expression = Inr r) \<and>
   (\<forall>e m. calculate_try py expression = Inl e \<and> is_Exception e \<and> str_outcome e = Inr m \<longrightarrow>
      calculate py expression = Inr (lit ''Calculation error: '' @ m)) \<and>
   (\<forall>e. calculate_try py expression = Inl e \<and> \<not> is_Exception e \<longrightarrow>
      calculate py expression = Inl e) \<and>
   (\<forall>r. read_file_try os fs filepath = Inr r \<longrightarrow> read_file os fs filepath = Inr r) \<and>
   (\<forall>e m. read_file_try os fs filepath = Inl e \<and> is_Exception e \<and> str_outcome e = Inr m \<longrightarrow>
      read_file os fs filepath = Inr (lit ''Error reading file: '' @ m)) \<and>
   (\<forall>e. read_file_try os fs filepath = Inl e \<and> \<not> is_Exception e \<longrightarrow>
      read_file os fs filepath = Inl e) \<and>
   (\<forall>r fs'. write_file_try os fs filepath content = (Inr r, fs') \<longrightarrow>
      write_file os fs filepath content = (Inr r, fs')) \<and>
   (\<forall>e m fs'. write_file_try os fs filepath content = (Inl e, fs') \<and>
      is_Exception e \<and> str_outcome e = Inr m \<longrightarrow>
      write_file os fs filepath content = (Inr (lit ''Error writing file: '' @ m), fs')) \<and>
   (\<forall>e fs'. write_file_try os fs filepath content = (Inl e, fs') \<and> \<not> is_Exception e \<longrightarrow>
      write_file os fs filepath content = (Inl e, fs'))"
  by (simp add: calculate_def read_file_def write_file_def except_Exception_def format_error_def)

theorem handlers_catch_Exception_instances_witness:
  "calculate example_python (lit ''2 + 3 * 4'') = Inr (lit ''Result: 2 + 3 * 4 = 14'') \<and>
   calculate example_python (lit ''1/0'') = Inr (lit ''Calculation error: division by zero'') \<and>
   calculate example_python exit_expression = Inl system_exit \<and>
   read_file example_os [] (lit ''notes.txt'') =
     Inr (lit ''Contents of notes.txt:'' @ [newline, newline] @ lit ''hello'') \<and>
   read_file example_os [] (lit ''docs'') =
     Inr (lit ''Error reading file: [Errno 21] Is a directory: '' @ [squote] @ lit ''docs'' @ [squote]) \<and>
   read_file interrupted_os [] (lit ''notes.txt'') = Inl keyboard_interrupt \<and>
   write_file example_os [] (lit ''notes.txt'') (lit ''hi'') =
     (Inr (lit ''Successfully wrote 2 characters to notes.txt''),
      [Wrote (lit ''notes.txt'') (lit ''hi'')]) \<and>
   write_file example_os [] (lit ''docs'') (lit ''hi'') =
     (Inr (lit ''Error writing file: [Errno 21] Is a directory: '' @ [squote] @ lit ''docs'' @ [squote]),
      []) \<and>
   write_file interrupted_os [] (lit ''notes.txt'') (lit ''hi'') = (Inl keyboard_interrupt, [])"
proof -
  let ?isdir = "lit ''[Errno 21] Is a directory: '' @ [squote] @ lit ''docs'' @ [squote]"
  have x: "exit_expression \<noteq> lit ''2 + 3 * 4''" "exit_expression \<noteq> lit ''[1, 2] * 2''"
    "exit_expression \<noteq> lit ''1/0''"
    by (simp_all add: exit_expression_def lit_def)
  have c1: "calculate_try example_python (lit ''2 + 3 * 4'') = Inr (lit ''Result: 2 + 3 * 4 = 14'')"
    by (simp add: calculate_try_def example_python_def lit_def)
  have c2: "calculate_try example_python (lit ''1/0'') = Inl (exception (lit ''division by zero''))"
    by (simp add: calculate_try_def example_python_def lit_def)
  have c3: "calculate_try example_python exit_expression = Inl system_exit"
    using x by (simp add: calculate_try_def example_python_def)
  have r1: "read_file_try example_os [] (lit ''notes.txt'') =
      Inr (lit ''Contents of notes.txt:'' @ [newline, newline] @ lit ''hello'')"
    by (simp add: read_file_try_def example_os_def lit_def)
  have r2: "read_file_try example_os [] (lit ''docs'') = Inl (exception ?isdir)"
    by (simp add: read_file_try_def example_os_def lit_def)
  have r3: "read_file_try interrupted_os [] (lit ''notes.txt'') = Inl keyboard_interrupt"
    by (simp add: read_file_try_def interrupted_os_def example_os_def lit_def)
  have n: "str_nat (length (lit ''hi'')) = lit ''2''"
  proof -
    have "length (lit ''hi'') = 2"
      by (simp add: lit_def)
    moreover have "str_nat 2 = lit ''2''"
      by (simp add: str_nat.simps[of 2] lit_def)
    ultimately show ?thesis
      by (simp only:)
  qed
  have d: "posix_dirname (lit ''notes.txt'') = []" "posix_dirname (lit ''docs'') = []"
    by (simp_all add: posix_dirname_def posix_split_def slash_def lit_def)
  have w1: "write_file_try example_os [] (lit ''notes.txt'') (lit ''hi'') =
      (Inr (lit ''Successfully wrote 2 characters to notes.txt''),
       [Wrote (lit ''notes.txt'') (lit ''hi'')])"
    using d n by (simp add: write_file_try_def example_os_def lit_def)
  have w2: "write_file_try example_os [] (lit ''docs'') (lit ''hi'') = (Inl (exception ?isdir), [])"
    using d by (simp add: write_file_try_def example_os_def lit_def)
  have w3: "write_file_try interrupted_os [] (lit ''notes.txt'') (lit ''hi'') =
      (Inl keyboard_interrupt, [])"
    using d by (simp add: write_file_try_def interrupted_os_def example_os_def)
  have e: "is_Exception (exception m)" "str_outcome (exception m) = Inr m"
    "\<not> is_Exception system_exit" "\<not> is_Exception keyboard_interrupt" for m
    by (simp_all add: exception_def system_exit_def keyboard_interrupt_def)
  note returns = handlers_catch_Exception_instances[of example_python "lit ''2 + 3 * 4''"
      example_os "[]" "lit ''notes.txt''" "lit ''hi''"]
  note catches = handlers_catch_Exception_instances[of example_python "lit ''1/0''"
      example_os "[]" "lit ''docs''" "lit ''hi''"]
  note passes = handlers_catch_Exception_instances[of example_python exit_expression
      interrupted_os "[]" "lit ''notes.txt''" "lit ''hi''"]
  have a1: "calculate example_python (lit ''2 + 3 * 4'') = Inr (lit ''Result: 2 + 3 * 4 = 14'')"
    using returns c1 by blast
  have a2: "calculate example_python (lit ''1/0'') =
      Inr (lit ''Calculation error: '' @ lit ''division by zero'')"
    using catches c2 e by blast
  have a3: "calculate example_python exit_expression = Inl system_exit"
    using passes c3 e by blast
  have b1: "read_file example_os [] (lit ''notes.txt'') =
      Inr (lit ''Contents of notes.txt:'' @ [newline, newline] @ lit ''hello'')"
    using returns r1 by blast
  have b2: "read_file example_os [] (lit ''docs'') = Inr (lit ''Error reading file: '' @ ?isdir)"
    using catches r2 e by blast
  have b3: "read_file interrupted_os [] (lit ''notes.txt'') = Inl keyboard_interrupt"
    using passes r3 e by blast
  have d1: "write_file example_os [] (lit ''notes.txt'') (lit ''hi'') =
      (Inr (lit ''Successfully wrote 2 characters to notes.txt''),
       [Wrote (lit ''notes.txt'') (lit ''hi'')])"
    using returns w1 by blast
  have d2: "write_file example_os [] (lit ''docs'') (lit ''hi'') =
      (Inr (lit ''Error writing file: '' @ ?isdir), [])"
    using catches w2 e by blast
  have d3: "write_file interrupted_os [] (lit ''notes.txt'') (lit ''hi'') =
      (Inl keyboard_interrupt, [])"
    using passes w3 e by blast
  show ?thesis
    unfolding a1 a2 a3 b1 b2 b3 d1 d2 d3 by (simp add: lit_def)
qed

text \<open>
  The claim as stated fails: evaluating \<open>exit_expression\<close> raises \<^verbatim>\<open>SystemExit\<close>, which
  is not an instance of \<^verbatim>\<open>Exception\<close>; \<open>calculate\<close> returns no text, the exception
  leaves it.
\<close>

theorem calculate_lets_SystemExit_through:
  "py_eval example_python exit_expression
     [lit ''__builtins__'' \<mapsto> empty_dict example_python] (allowed_names example_python) =
     Inl system_exit \<and>
   \<not> is_Exception system_exit \<and>
   calculate example_python exit_expression = Inl system_exit \<and>
   (\<nexists>text. calculate example_python exit_expression = Inr text)"
proof -
  have x: "exit_expression \<noteq> lit ''2 + 3 * 4''" "exit_expression \<noteq> lit ''[1, 2] * 2''"
    "exit_expression \<noteq> lit ''1/0''"
    by (simp_all add: exit_expression_def lit_def)
  have e: "py_eval example_python exit_expression
     [lit ''__builtins__'' \<mapsto> empty_dict example_python] (allowed_names example_python) =
     Inl system_exit"
    using x by (simp add: example_python_def)
  have n: "\<not> is_Exception system_exit"
    by (simp add: system_exit_def)
  have c: "calculate example_python exit_expression = Inl system_exit"
    using e n by (simp add: calculate_def calculate_try_def except_Exception_def)
  show ?thesis
    using e n c by simp
qed

subsection \<open>list\_files\<close>

lemma list_files_loop_eq:
  "list_files_loop os fs directory items files =
     files @ concat (map (\<lambda>item.
       if path_isfile os fs (path_join os directory item) then [file_marker @ lit '' '' @ item]
       else if path_isdir os fs (path_join os directory item) then
         [folder_marker @ lit '' '' @ item @ lit ''/'']
       else []) items)"
  by (induction items arbitrary: files) (simp_all add: Let_def)

text \<open>
  When \<^verbatim>\<open>os.listdir\<close> raises on an existing directory, \<open>list_files\<close> returns its failure
  text.
\<close>

lemma list_files_listdir_raises:
  assumes "path_exists os fs directory" and "listdir os fs directory = Inl e"
    and "is_Exception e" and "str_outcome e = Inr m"
  shows "list_files os fs directory = Inr (lit ''Error listing files: '' @ m)"
  using assms
  by (simp add: list_files_def list_files_try_def except_Exception_def format_error_def)

text \<open>
  C9, as the code has it. For a directory that exists and of which \<^verbatim>\<open>os.listdir\<close>
  returns the entries, \<open>list_files\<close> returns the success text: the header, then the
  lines joined by newlines. The lines are sorted (strings compare by code point, so
  the folder marker U+1F4C1 sorts before the file marker U+1F4C4); they are one
  line \<^verbatim>\<open>marker name\<close> for every entry that is a regular file and one line
  \<^verbatim>\<open>marker name/\<close> for every entry that is a directory; an entry that is neither has
  no line.
\<close>

theorem list_files_sorted_entries:
  assumes "path_exists os fs directory" and "listdir os fs directory = Inr items"
  shows "\<exists>lines.
     list_files os fs directory =
       Inr (lit ''Files in '' @ directory @ lit '':'' @ [newline] @ join [newline] lines) \<and>
     sorted lines \<and>
     set lines =
       {file_marker @ lit '' '' @ item | item.
          item \<in> set items \<and> path_isfile os fs (path_join os directory item)} \<union>
       {folder_marker @ lit '' '' @ item @ lit ''/'' | item.
          item \<in> set items \<and> \<not> path_isfile os fs (path_join os directory item) \<and>
          path_isdir os fs (path_join os directory item)} \<and>
     length lines =
       length (filter (\<lambda>item. path_isfile os fs (path_join os directory item) \<or>
                             path_isdir os fs (path_join os directory item)) items)"
proof -
  define files where "files = list_files_loop os fs directory items []"
  have r: "list_files os fs directory =
       Inr (lit ''Files in '' @ directory @ lit '':'' @ [newline] @ join [newline] (sort files))"
    using assms
    by (simp add: list_files_def list_files_try_def except_Exception_def files_def Let_def)
  have s: "set files =
       {file_marker @ lit '' '' @ item | item.
          item \<in> set items \<and> path_isfile os fs (path_join os directory item)} \<union>
       {folder_marker @ lit '' '' @ item @ lit ''/'' | item.
          item \<in> set items \<and> \<not> path_isfile os fs (path_join os directory item) \<and>
          path_isdir os fs (path_join os directory item)}"
    unfolding files_def list_files_loop_eq by (auto split: if_splits)
  have l: "length files =
       length (filter (\<lambda>item. path_isfile os fs (path_join os directory item) \<or>
                             path_isdir os fs (path_join os directory item)) items)"
    unfolding files_def list_files_loop_eq by (induction items) auto
  show ?thesis
    using r s l by (intro exI[of _ "sort files"]) simp
qed

theorem list_files_sorted_entries_witness:
  "path_exists example_os [] (lit ''.'') \<and>
   listdir example_os [] (lit ''.'') =
     Inr [lit ''notes.txt'', lit ''private'', lit ''docs'', lit ''agent.sock'', lit ''Makefile''] \<and>
   list_files example_os [] (lit ''.'') =
     Inr (lit ''Files in .:'' @ [newline] @ folder_marker @ lit '' docs/'' @ [newline] @
          folder_marker @ lit '' private/'' @ [newline] @
          file_marker @ lit '' Makefile'' @ [newline] @ file_marker @ lit '' notes.txt'') \<and>
   sorted [folder_marker @ lit '' docs/'', folder_marker @ lit '' private/'',
           file_marker @ lit '' Makefile'', file_marker @ lit '' notes.txt'']"
proof -
  let ?items = "[lit ''notes.txt'', lit ''private'', lit ''docs'', lit ''agent.sock'', lit ''Makefile'']"
  let ?lines = "[folder_marker @ lit '' docs/'', folder_marker @ lit '' private/'',
           file_marker @ lit '' Makefile'', file_marker @ lit '' notes.txt'']"
  have e: "path_exists example_os [] (lit ''.'')"
    by (simp add: example_os_def)
  have l: "listdir example_os [] (lit ''.'') = Inr ?items"
    by (simp add: example_os_def)
  have i: "path_isfile example_os [] (path_join example_os (lit ''.'') (lit ''notes.txt''))"
    "\<not> path_isfile example_os [] (path_join example_os (lit ''.'') (lit ''private''))"
    "path_isdir example_os [] (path_join example_os (lit ''.'') (lit ''private''))"
    "\<not> path_isfile example_os [] (path_join example_os (lit ''.'') (lit ''docs''))"
    "path_isdir example_os [] (path_join example_os (lit ''.'') (lit ''docs''))"
    "\<not> path_isfile example_os [] (path_join example_os (lit ''.'') (lit ''agent.sock''))"
    "\<not> path_isdir example_os [] (path_join example_os (lit ''.'') (lit ''agent.sock''))"
    "path_isfile example_os [] (path_join example_os (lit ''.'') (lit ''Makefile''))"
    by (simp_all add: example_os_def posix_join_def startswith_def slash_def lit_def)
  have f: "list_files_loop example_os [] (lit ''.'') ?items [] =
      [file_marker @ lit '' notes.txt'', folder_marker @ lit '' private/'',
       folder_marker @ lit '' docs/'', file_marker @ lit '' Makefile'']"
    using i by (simp add: Let_def lit_def)
  have s: "sort [file_marker @ lit '' notes.txt'', folder_marker @ lit '' private/'',
       folder_marker @ lit '' docs/'', file_marker @ lit '' Makefile''] = ?lines"
    by (simp add: file_marker_def folder_marker_def lit_def)
  have so: "sorted ?lines"
    by (simp add: file_marker_def folder_marker_def lit_def)
  have r: "list_files example_os [] (lit ''.'') =
     Inr (lit ''Files in .:'' @ [newline] @ folder_marker @ lit '' docs/'' @ [newline] @
          folder_marker @ lit '' private/'' @ [newline] @
          file_marker @ lit '' Makefile'' @ [newline] @ file_marker @ lit '' notes.txt'')"
    unfolding list_files_def list_files_try_def except_Exception_def Let_def
    using e l f s by (simp add: lit_def)
  show ?thesis
    using list_files_sorted_entries[OF e l] e l r so by blast
qed

text \<open>
  The claim as stated fails: \<^verbatim>\<open>private\<close> is an existing directory that the process
  may not read, so \<^verbatim>\<open>os.listdir\<close> raises and \<open>list_files\<close> returns a failure text, not
  a listing.
\<close>

theorem list_files_unreadable_directory_fails:
  "path_exists example_os [] (lit ''private'') \<and>
   path_isdir example_os [] (lit ''private'') \<and>
   list_files example_os [] (lit ''private'') =
     Inr (lit ''Error listing files: [Errno 13] Permission denied: '' @ [squote] @
          lit ''private'' @ [squote])"
  by (simp add: list_files_def list_files_try_def except_Exception_def format_error_def
      example_os_def exception_def lit_def)

subsection \<open>write\_file\<close>

text \<open>
  C10, as the code has it. For every operating system and every filepath whose
  parent directory component is not empty, whether that directory exists or not:
  \<open>write_file\<close> first calls \<^verbatim>\<open>os.makedirs\<close> on the parent with \<^verbatim>\<open>exist_ok=True\<close> and then
  opens the file in the file system that call left. When both return, the success
  message is returned. When \<^verbatim>\<open>os.makedirs\<close> raises an instance of \<^verbatim>\<open>Exception\<close> with
  the message \<open>m\<close>, nothing is written and the failure text with \<open>m\<close> is returned; so
  it is when opening or writing the file raises one.
\<close>

theorem write_file_makes_directory_first:
  assumes "path_dirname os filepath \<noteq> []"
  shows "(\<forall>fs1 fs2. makedirs os fs (path_dirname os filepath) = (Inr (), fs1) \<and>
            write_text os fs1 filepath content = (Inr (), fs2) \<longrightarrow>
            write_file os fs filepath content =
              (Inr (lit ''Successfully wrote '' @ str_nat (length content) @
                    lit '' characters to '' @ filepath), fs2)) \<and>
         (\<forall>e m fs1. makedirs os fs (path_dirname os filepath) = (Inl e, fs1) \<and>
            is_Exception e \<and> str_outcome e = Inr m \<longrightarrow>
            write_file os fs filepath content =
              (Inr (lit ''Error writing file: '' @ m), fs1)) \<and>
         (\<forall>e m fs1 fs2. makedirs os fs (path_dirname os filepath) = (Inr (), fs1) \<and>
            write_text os fs1 filepath content = (Inl e, fs2) \<and>
            is_Exception e \<and> str_outcome e = Inr m \<longrightarrow>
            write_file os fs filepath content =
              (Inr (lit ''Error writing file: '' @ m), fs2))"
  using assms
  by (simp add: write_file_def write_file_try_def except_Exception_def format_error_def Let_def)

theorem write_file_makes_directory_first_witness:
  "path_dirname example_os (lit ''new/deep/x.txt'') = lit ''new/deep'' \<and>
   \<not> path_exists example_os [] (lit ''new/deep'') \<and>
   write_file example_os [] (lit ''new/deep/x.txt'') (lit ''hi there'') =
     (Inr (lit ''Successfully wrote 8 characters to new/deep/x.txt''),
      [MadeDirs (lit ''new/deep''), Wrote (lit ''new/deep/x.txt'') (lit ''hi there'')]) \<and>
   path_dirname example_os (lit ''notes.txt/sub/x.txt'') = lit ''notes.txt/sub'' \<and>
   write_file example_os [] (lit ''notes.txt/sub/x.txt'') (lit ''hi there'') =
     (Inr (lit ''Error writing file: [Errno 20] Not a directory: '' @ [squote] @
           lit ''notes.txt/sub'' @ [squote]), []) \<and>
   path_dirname example_os (lit ''docs/'') = lit ''docs'' \<and>
   write_file example_os [] (lit ''docs/'') (lit ''hi there'') =
     (Inr (lit ''Error writing file: [Errno 21] Is a directory: '' @ [squote] @
           lit ''docs/'' @ [squote]), [])"
proof -
  let ?notdir = "lit ''[Errno 20] Not a directory: '' @ [squote] @ lit ''notes.txt/sub'' @ [squote]"
  let ?isdir = "lit ''[Errno 21] Is a directory: '' @ [squote] @ lit ''docs/'' @ [squote]"
  have d: "path_dirname example_os (lit ''new/deep/x.txt'') = lit ''new/deep''"
    "path_dirname example_os (lit ''notes.txt/sub/x.txt'') = lit ''notes.txt/sub''"
    "path_dirname example_os (lit ''docs/'') = lit ''docs''"
    by (simp_all add: example_os_def posix_dirname_def posix_split_def rstrip_slash_def
        slash_def lit_def)
  have ne: "lit ''new/deep'' \<noteq> []" "lit ''notes.txt/sub'' \<noteq> []" "lit ''docs'' \<noteq> []"
    by (simp_all add: lit_def)
  have x: "\<not> path_exists example_os [] (lit ''new/deep'')"
    by (simp add: example_os_def lit_def)
  have n: "str_nat (length (lit ''hi there'')) = lit ''8''"
  proof -
    have "length (lit ''hi there'') = 8"
      by (simp add: lit_def)
    moreover have "str_nat 8 = lit ''8''"
      by (simp add: str_nat.simps[of 8] lit_def)
    ultimately show ?thesis
      by (simp only:)
  qed
  have m1: "makedirs example_os [] (lit ''new/deep'') = (Inr (), [MadeDirs (lit ''new/deep'')])"
    by (simp add: example_os_def lit_def)
  have w1: "write_text example_os [MadeDirs (lit ''new/deep'')] (lit ''new/deep/x.txt'')
      (lit ''hi there'') =
      (Inr (), [MadeDirs (lit ''new/deep''), Wrote (lit ''new/deep/x.txt'') (lit ''hi there'')])"
    by (simp add: example_os_def lit_def)
  have m2: "makedirs example_os [] (lit ''notes.txt/sub'') = (Inl (exception ?notdir), [])"
    by (simp add: example_os_def)
  have m3: "makedirs example_os [] (lit ''docs'') = (Inr (), [])"
    by (simp add: example_os_def lit_def)
  have w3: "write_text example_os [] (lit ''docs/'') (lit ''hi there'') =
      (Inl (exception ?isdir), [])"
    by (simp add: example_os_def)
  have e: "is_Exception (exception m)" "str_outcome (exception m) = Inr m" for m
    by (simp_all add: exception_def)
  have a: "write_file example_os [] (lit ''new/deep/x.txt'') (lit ''hi there'') =
      (Inr (lit ''Successfully wrote '' @ str_nat (length (lit ''hi there'')) @
            lit '' characters to '' @ lit ''new/deep/x.txt''),
       [MadeDirs (lit ''new/deep''), Wrote (lit ''new/deep/x.txt'') (lit ''hi there'')])"
    using write_file_makes_directory_first[of example_os "lit ''new/deep/x.txt''" "[]"
        "lit ''hi there''"] d ne m1 w1
    by simp
  have b: "write_file example_os [] (lit ''notes.txt/sub/x.txt'') (lit ''hi there'') =
      (Inr (lit ''Error writing file: '' @ ?notdir), [])"
    using write_file_makes_directory_first[of example_os "lit ''notes.txt/sub/x.txt''" "[]"
        "lit ''hi there''"] d ne m2 e
    by simp
  have c: "write_file example_os [] (lit ''docs/'') (lit ''hi there'') =
      (Inr (lit ''Error writing file: '' @ ?isdir), [])"
    using write_file_makes_directory_first[of example_os "lit ''docs/''" "[]"
        "lit ''hi there''"] d ne m3 w3 e
    by simp
  show ?thesis
    unfolding a b c n using d x by (simp add: lit_def)
qed

text \<open>
  The claim as stated fails: \<^verbatim>\<open>notes.txt\<close> is a regular file, so the parent directory
  \<^verbatim>\<open>notes.txt/sub\<close> of the filepath is not empty and does not exist, and it cannot be
  created; \<open>write_file\<close> returns a failure text.
\<close>

theorem write_file_below_regular_file_fails:
  "path_dirname example_os (lit ''notes.txt/sub/x.txt'') = lit ''notes.txt/sub'' \<and>
   lit ''notes.txt/sub'' \<noteq> [] \<and>
   \<not> path_exists example_os [] (lit ''notes.txt/sub'') \<and>
   write_file example_os [] (lit ''notes.txt/sub/x.txt'') (lit ''hi'') =
     (Inr (lit ''Error writing file: [Errno 20] Not a directory: '' @ [squote] @
           lit ''notes.txt/sub'' @ [squote]),
      [])"
proof -
  have d: "posix_dirname (lit ''notes.txt/sub/x.txt'') = lit ''notes.txt/sub''"
    by (simp add: posix_dirname_def posix_split_def rstrip_slash_def slash_def lit_def)
  have ne: "lit ''notes.txt/sub'' \<noteq> []"
    by (simp add: lit_def)
  have x: "\<not> path_exists example_os [] (lit ''notes.txt/sub'')"
    by (simp add: example_os_def lit_def)
  have w: "write_file example_os [] (lit ''notes.txt/sub/x.txt'') (lit ''hi'') =
     (Inr (lit ''Error writing file: [Errno 20] Not a directory: '' @ [squote] @
           lit ''notes.txt/sub'' @ [squote]),
      [])"
    using d ne
    by (simp add: write_file_def write_file_try_def except_Exception_def format_error_def
        example_os_def exception_def lit_def)
  show ?thesis
    using d ne x w by (simp add: example_os_def)
qed

end
